theory Spec2Isabelle
  imports Complex_Main
begin

section \<open>Python values, exceptions and dictionaries\<close>

text \<open>
  Python values: what a caller can put into \<^verbatim>\<open>additional_context\<close>
  (\<^verbatim>\<open>Dict[str, Any]\<close>, read from a JSON body), what the handler itself stores under
  \<^verbatim>\<open>"production_name"\<close>, and what the engine's run can return, which the source does
  not type. \<open>PObject c\<close> is an object of any other class, named \<open>c\<close>. A string is a
  list of characters with code points below 256; the literals of the source are ASCII.
\<close>

datatype pyval =
    PNone
  | PBool bool
  | PInt int
  | PFloat real
  | PStr string
  | PList "pyval list"
  | PDict "(string \<times> pyval) list"
  | PObject string

text \<open>
  A raised exception. \<open>KeyError k\<close> is what \<^verbatim>\<open>d[k]\<close> raises on a missing key;
  \<open>Exception m\<close> is any other instance of \<^verbatim>\<open>Exception\<close> with \<^verbatim>\<open>str(e) = m\<close>;
  \<open>BaseException m\<close> is an instance of a class that derives from \<^verbatim>\<open>BaseException\<close> but
  not from \<^verbatim>\<open>Exception\<close> (\<^verbatim>\<open>asyncio.CancelledError\<close>, \<^verbatim>\<open>KeyboardInterrupt\<close>,
  \<^verbatim>\<open>SystemExit\<close>), which \<^verbatim>\<open>except Exception\<close> does not catch.
\<close>

datatype exn = KeyError string | Exception string | BaseException string

fun is_Exception :: "exn \<Rightarrow> bool" where
  "is_Exception (KeyError k) = True"
| "is_Exception (Exception m) = True"
| "is_Exception (BaseException m) = False"

text \<open>
  \<^verbatim>\<open>repr\<close> of a string. The quote is the single one, unless the string holds a single
  quote and no double quote. The quote and the backslash are escaped with a backslash,
  tab, line feed and carriage return are written with their letters, any other character
  that is not printable (a control character, the no-break space, the soft hyphen) is
  written with two hexadecimal digits, and every other character stands for itself.
\<close>

definition hex_digit :: "nat \<Rightarrow> char" where
  "hex_digit n = char_of (if n < 10 then 48 + n else 87 + n)"

definition printable :: "char \<Rightarrow> bool" where
  "printable c =
     (let n = (of_char c :: nat) in (32 \<le> n \<and> n < 127) \<or> (161 \<le> n \<and> n \<noteq> 173))"

definition repr_char :: "char \<Rightarrow> char \<Rightarrow> string" where
  "repr_char q c =
     (if c = q \<or> c = CHR 0x5C then [CHR 0x5C, c]
      else if c = CHR 0x09 then [CHR 0x5C, CHR ''t'']
      else if c = CHR 0x0A then [CHR 0x5C, CHR ''n'']
      else if c = CHR 0x0D then [CHR 0x5C, CHR ''r'']
      else if printable c then [c]
      else [CHR 0x5C, CHR ''x'',
            hex_digit ((of_char c :: nat) div 16), hex_digit ((of_char c :: nat) mod 16)])"

definition repr :: "string \<Rightarrow> string" where
  "repr s =
     (let q = (if CHR 0x27 \<in> set s \<and> CHR 0x22 \<notin> set s then CHR 0x22 else CHR 0x27)
      in [q] @ concat (map (repr_char q) s) @ [q])"

text \<open>\<^verbatim>\<open>str(e)\<close>; for a \<^verbatim>\<open>KeyError\<close> it is the \<^verbatim>\<open>repr\<close> of the key.\<close>

fun str :: "exn \<Rightarrow> string" where
  "str (KeyError k) = repr k"
| "str (Exception m) = m"
| "str (BaseException m) = m"

text \<open>
  The dictionary literals of \<^verbatim>\<open>crew_definitions.py\<close> are association lists (their keys are
  distinct, so the first match of \<open>map_of\<close> is the entry). \<^verbatim>\<open>d.get(k, default)\<close> never
  raises; \<^verbatim>\<open>d[k]\<close> raises \<^verbatim>\<open>KeyError\<close> on a missing key.
\<close>

definition dict_get :: "(string \<times> 'v) list \<Rightarrow> string \<Rightarrow> 'v \<Rightarrow> 'v" where
  "dict_get d k dflt = (case map_of d k of None \<Rightarrow> dflt | Some v \<Rightarrow> v)"

definition dict_item :: "(string \<times> 'v) list \<Rightarrow> string \<Rightarrow> exn + 'v" where
  "dict_item d k = (case map_of d k of None \<Rightarrow> Inl (KeyError k) | Some v \<Rightarrow> Inr v)"

section \<open>The roster builder (\<^verbatim>\<open>crew_definitions.py\<close>)\<close>

text \<open>
  \<^verbatim>\<open>Agent\<close>, \<^verbatim>\<open>Task\<close> and \<^verbatim>\<open>Crew\<close> are the orchestration framework's classes; the
  builder only calls their constructors with keyword arguments, so each is the record of
  the arguments it was given. A task holds the agent it is bound to.
\<close>

record Agent =
  role :: string
  goal :: string
  backstory :: string
  verbose :: bool
  allow_delegation :: bool

record Task =
  description :: string
  expected_output :: string
  agent :: Agent

datatype Process = sequential | hierarchical

datatype Callbacks = CrewAgentCallbacks

record Crew =
  agents :: "Agent list"
  tasks :: "Task list"
  crew_verbose :: nat
  process :: Process
  callbacks :: Callbacks

text \<open>
  The class \<^verbatim>\<open>MusicalTheaterCrew\<close>: two dictionaries that stay empty, the role list and
  the task templates per role. (Its fields \<^verbatim>\<open>agents\<close> and \<^verbatim>\<open>tasks\<close> are prefixed here,
  the names being those of the \<^verbatim>\<open>Crew\<close> arguments.)
\<close>

record MusicalTheaterCrew =
  mgr_agents :: "(string \<times> Agent) list"
  mgr_tasks :: "(string \<times> Task) list"
  roles :: "string list"
  task_templates :: "(string \<times> (string \<times> string) list) list"

definition MusicalTheaterCrew_init :: MusicalTheaterCrew where
  "MusicalTheaterCrew_init = \<lparr>
     mgr_agents = [],
     mgr_tasks = [],
     roles = [
       ''Composer + Lyricist'',
       ''Book'',
       ''Director'',
       ''Choreographer'',
       ''Set/Visual'',
       ''Dramaturg'',
       ''Market/Producer''
     ],
     task_templates = [
       (''Composer + Lyricist'', [
          (''Compose new songs'', ''Sheet music and lyrics for all songs''),
          (''Develop musical themes'', ''Musical motifs for characters and scenes''),
          (''Create vocal arrangements'', ''Detailed vocal arrangements for ensemble'')
        ]),
       (''Book'', [
          (''Draft storyline'', ''Complete first draft of the book''),
          (''Character development'', ''Detailed character backgrounds and arcs''),
          (''Scene structure'', ''Scene-by-scene breakdown with transitions'')
        ]),
       (''Director'', [
          (''Review creative inputs'', ''Provide feedback on creative direction''),
          (''Vision development'', ''Comprehensive production vision document''),
          (''Staging concepts'', ''Initial staging plans for key scenes'')
        ]),
       (''Choreographer'', [
          (''Develop choreography'', ''Choreography plans for musical numbers''),
          (''Movement patterns'', ''Character-specific movement guidelines''),
          (''Dance arrangements'', ''Dance break arrangements for ensemble numbers'')
        ]),
       (''Set/Visual'', [
          (''Design set sketches'', ''Mood boards and initial sketches''),
          (''Technical requirements'', ''Technical specifications for set pieces''),
          (''Visual continuity'', ''Scene transition and visual flow plans'')
        ]),
       (''Dramaturg'', [
          (''Check continuity'', ''A list of suggested storyline adjustments''),
          (''Historical research'', ''Period-specific reference materials''),
          (''Theme analysis'', ''Analysis of major themes and motifs'')
        ]),
       (''Market/Producer'', [
          (''Analyze market trends'', ''Market analysis report''),
          (''Budget planning'', ''Initial budget breakdown''),
          (''Marketing strategy'', ''Marketing and promotion plan'')
        ])
     ]
   \<rparr>"

text \<open>The local table of \<^verbatim>\<open>create_agent_for_role\<close> and the default of its \<^verbatim>\<open>.get\<close>.\<close>

definition role_descriptions :: "(string \<times> (string \<times> string) list) list" where
  "role_descriptions = [
     (''Composer + Lyricist'', [
        (''goal'', ''Create compelling musical numbers and lyrics that advance the story''),
        (''backstory'', ''You are an experienced composer and lyricist with a deep understanding of musical theater conventions and the ability to create memorable melodies and meaningful lyrics.'')
      ]),
     (''Book'', [
        (''goal'', ''Develop a coherent and engaging narrative structure''),
        (''backstory'', ''You are a skilled playwright with experience in crafting compelling stories and developing rich characters for musical theater.'')
      ]),
     (''Director'', [
        (''goal'', ''Unify the creative vision and guide the overall production''),
        (''backstory'', ''You are a seasoned director with expertise in bringing together various theatrical elements into a cohesive whole.'')
      ]),
     (''Choreographer'', [
        (''goal'', ''Create dynamic movement that enhances the storytelling''),
        (''backstory'', ''You are an innovative choreographer who specializes in creating movement that serves both the story and the music.'')
      ]),
     (''Set/Visual'', [
        (''goal'', ''Design compelling visual environments that support the narrative''),
        (''backstory'', ''You are a creative designer with experience in creating immersive theatrical environments that enhance storytelling.'')
      ]),
     (''Dramaturg'', [
        (''goal'', ''Ensure historical accuracy and narrative consistency''),
        (''backstory'', ''You are a meticulous researcher and story expert who helps maintain the integrity of the production.'')
      ]),
     (''Market/Producer'', [
        (''goal'', ''Develop effective marketing strategies and manage production resources''),
        (''backstory'', ''You are an experienced producer with a strong understanding of theater marketing and production management.'')
      ])
   ]"

definition fallback_role_info :: "(string \<times> string) list" where
  "fallback_role_info = [
     (''goal'', ''Contribute to the overall success of the production''),
     (''backstory'', ''You are a theater professional with expertise in your specific domain.'')
   ]"

text \<open>
  \<^verbatim>\<open>create_agent_for_role\<close>: the lookup with its default, then the two subscripts
  \<^verbatim>\<open>role_info["goal"]\<close> and \<^verbatim>\<open>role_info["backstory"]\<close>, each of which would raise
  \<^verbatim>\<open>KeyError\<close> on a dictionary without that key.
\<close>

definition create_agent_for_role :: "string \<Rightarrow> exn + Agent" where
  "create_agent_for_role r =
     (let role_info = dict_get role_descriptions r fallback_role_info in
      case dict_item role_info ''goal'' of
        Inl e \<Rightarrow> Inl e
      | Inr g \<Rightarrow>
         (case dict_item role_info ''backstory'' of
            Inl e \<Rightarrow> Inl e
          | Inr b \<Rightarrow>
             Inr \<lparr>role = r, goal = g, backstory = b,
                  verbose = True, allow_delegation = True\<rparr>))"

definition create_task_for_role :: "Agent \<Rightarrow> string \<times> string \<Rightarrow> Task" where
  "create_task_for_role a task_desc =
     (case task_desc of (d, e) \<Rightarrow>
        \<lparr>description = d, expected_output = e, agent = a\<rparr>)"

text \<open>
  The inner loop of \<^verbatim>\<open>create_musical_theater_crew\<close>: one task appended per template of
  the role, in template order.
\<close>

fun role_tasks_loop :: "Agent \<Rightarrow> (string \<times> string) list \<Rightarrow> Task list \<Rightarrow> Task list" where
  "role_tasks_loop a [] ts = ts"
| "role_tasks_loop a (task_desc # rest) ts =
     role_tasks_loop a rest (ts @ [create_task_for_role a task_desc])"

text \<open>
  The outer loop, over the role list of the manager \<open>m\<close>, with the two lists it appends
  to. An exception of \<^verbatim>\<open>create_agent_for_role\<close> leaves the loop.
\<close>

fun roles_loop ::
  "MusicalTheaterCrew \<Rightarrow> string list \<Rightarrow> Agent list \<Rightarrow> Task list
     \<Rightarrow> exn + (Agent list \<times> Task list)" where
  "roles_loop m [] as ts = Inr (as, ts)"
| "roles_loop m (r # rest) as ts =
     (case create_agent_for_role r of
        Inl e \<Rightarrow> Inl e
      | Inr a \<Rightarrow>
          roles_loop m rest (as @ [a])
            (role_tasks_loop a (dict_get (task_templates m) r []) ts))"

definition create_musical_theater_crew :: "string \<Rightarrow> exn + Crew" where
  "create_musical_theater_crew production_name =
     (let crew_manager = MusicalTheaterCrew_init in
      case roles_loop crew_manager (roles crew_manager) [] [] of
        Inl e \<Rightarrow> Inl e
      | Inr (as, ts) \<Rightarrow>
          Inr \<lparr>agents = as, tasks = ts, crew_verbose = 2,
               process = sequential, callbacks = CrewAgentCallbacks\<rparr>)"

text \<open>
  What \<^verbatim>\<open>create_agent_for_role\<close> returns for a role (shown below to be its result for
  every role string), and the tasks the inner loop appends for that role.
\<close>

definition descriptor_of :: "string \<Rightarrow> Agent" where
  "descriptor_of r =
     (let role_info = dict_get role_descriptions r fallback_role_info in
      \<lparr>role = r, goal = dict_get role_info ''goal'' [],
       backstory = dict_get role_info ''backstory'' [],
       verbose = True, allow_delegation = True\<rparr>)"

definition tasks_of :: "MusicalTheaterCrew \<Rightarrow> string \<Rightarrow> Task list" where
  "tasks_of m r =
     map (create_task_for_role (descriptor_of r)) (dict_get (task_templates m) r [])"

definition has_goal_backstory :: "(string \<times> string) list \<Rightarrow> bool" where
  "has_goal_backstory d = (map_of d ''goal'' \<noteq> None \<and> map_of d ''backstory'' \<noteq> None)"

section \<open>The HTTP facade (\<^verbatim>\<open>main.py\<close>)\<close>

text \<open>
  The request and response models. The declared field types are the types of the
  record fields: \<^verbatim>\<open>production_name: str\<close> is any string, the empty one included, and
  \<^verbatim>\<open>additional_context: Dict[str, Any]\<close> is a map from strings to values.
\<close>

record CrewRequest =
  production_name :: string
  additional_context :: "string \<rightharpoonup> pyval"

record CrewResponse =
  result :: string
  execution_time :: real

text \<open>
  How a request ends when it does not return a response: with the \<^verbatim>\<open>HTTPException\<close> the
  code raises, or with an exception that no handler of this code catches.
\<close>

datatype failure = HTTPException (status_code: nat) (detail: string) | Uncaught exn

text \<open>
  What the code does besides returning: the records it logs and the calls it makes to
  the roster builder and to the engine, in order. \<open>Log_completed t\<close> is the record
  \<^verbatim>\<open>"CrewAI execution completed in {t:.2f} seconds"\<close>, whose number formatting is left
  symbolic.
\<close>

datatype event =
    Log_info string
  | Log_error string
  | Log_completed real
  | Call_create_crew string
  | Call_kickoff Crew "string \<rightharpoonup> pyval"

text \<open>
  Everything outside this repository that the handler reads: the process environment
  (\<^verbatim>\<open>os.getenv\<close>); the engine's \<^verbatim>\<open>Crew.kickoff_async\<close>, which returns a value of
  any kind or raises; the event loop's clock, \<open>loop_time w n\<close> being the value of the
  \<open>n\<close>-th call of \<^verbatim>\<open>asyncio.get_event_loop().time()\<close> during the request (a float,
  taken here as a real number); and the message of the validation error that the
  response model raises for a value it rejects.
\<close>

record world =
  environ :: "string \<rightharpoonup> string"
  kickoff_async :: "Crew \<Rightarrow> (string \<rightharpoonup> pyval) \<Rightarrow> exn + pyval"
  loop_time :: "nat \<Rightarrow> real"
  validation_message :: "pyval \<Rightarrow> string"

text \<open>Python's truth value of \<^verbatim>\<open>os.getenv(key)\<close>: \<^verbatim>\<open>None\<close> and \<^verbatim>\<open>""\<close> are false.\<close>

fun truthy :: "string option \<Rightarrow> bool" where
  "truthy None = False"
| "truthy (Some s) = (s \<noteq> [])"

text \<open>\<^verbatim>\<open>sep.join(xs)\<close>.\<close>

fun join :: "string \<Rightarrow> string list \<Rightarrow> string" where
  "join sep [] = []"
| "join sep [x] = x"
| "join sep (x # y # ys) = x @ sep @ join sep (y # ys)"

definition verify_api_keys :: "world \<Rightarrow> (failure + bool) \<times> event list" where
  "verify_api_keys w =
     (let required_keys = [''OPENAI_API_KEY''];
          missing_keys = filter (\<lambda>key. \<not> truthy (environ w key)) required_keys
      in if missing_keys \<noteq> [] then
           (let error_msg =
                  ''Missing required environment variables: '' @ join '', '' missing_keys
            in (Inl (HTTPException 500 error_msg), [Log_error error_msg]))
         else (Inr True, []))"

text \<open>
  The \<^verbatim>\<open>except Exception as e\<close> clause of \<^verbatim>\<open>trigger_crew\<close>, reached with the events
  \<open>evs\<close> done so far: an instance of \<^verbatim>\<open>Exception\<close> is logged and turned into a 500;
  anything else passes through.
\<close>

definition except_clause :: "exn \<Rightarrow> event list \<Rightarrow> (failure + CrewResponse) \<times> event list" where
  "except_clause e evs =
     (if is_Exception e then
        (Inl (HTTPException 500 (''An error occurred during CrewAI execution: '' @ str e)),
         evs @ [Log_error (''Error during CrewAI execution: '' @ str e)])
      else (Inl (Uncaught e), evs))"

text \<open>
  The mapping handed to the engine,
  \<^verbatim>\<open>{"production_name": request.production_name, **request.additional_context}\<close>:
  the entries of the context are written after the name, so the map override \<open>++\<close>,
  in which the right operand wins.
\<close>

definition inputs_of :: "CrewRequest \<Rightarrow> (string \<rightharpoonup> pyval)" where
  "inputs_of request =
     [''production_name'' \<mapsto> PStr (production_name request)] ++ additional_context request"

text \<open>
  The constructor call \<^verbatim>\<open>CrewResponse(result=result, execution_time=execution_time)\<close>.
  The model declares \<^verbatim>\<open>result: str\<close>: a string is taken as it is, and any other value
  fails validation, which raises an instance of \<^verbatim>\<open>Exception\<close>. The execution time is
  always the float the handler computed.
\<close>

definition CrewResponse_init :: "world \<Rightarrow> pyval \<Rightarrow> real \<Rightarrow> exn + CrewResponse" where
  "CrewResponse_init w res t =
     (case res of
        PStr s \<Rightarrow> Inr \<lparr>result = s, execution_time = t\<rparr>
      | _ \<Rightarrow> Inl (Exception (validation_message w res)))"

text \<open>
  The body of \<^verbatim>\<open>trigger_crew\<close>, with the roster builder it calls as the parameter
  \<open>build\<close>: the \<^verbatim>\<open>try\<close> block covers the call of the builder, whose constructors
  belong to the framework, so a builder that raises is a branch here. The block also
  covers the construction of the response, after the completion has been logged.
\<close>

definition trigger_crew_with ::
  "(string \<Rightarrow> exn + Crew) \<Rightarrow> world \<Rightarrow> CrewRequest \<Rightarrow> bool
     \<Rightarrow> (failure + CrewResponse) \<times> event list" where
  "trigger_crew_with build w request api_keys =
     (let evs1 = [Log_info (''Received request for production: '' @ production_name request),
                  Call_create_crew (production_name request)]
      in case build (production_name request) of
           Inl e \<Rightarrow> except_clause e evs1
         | Inr crew \<Rightarrow>
            (let start_time = loop_time w 0;
                 inputs = inputs_of request;
                 evs2 = evs1 @ [Call_kickoff crew inputs]
             in case kickoff_async w crew inputs of
                  Inl e \<Rightarrow> except_clause e evs2
                | Inr res \<Rightarrow>
                   (let execution_time = loop_time w 1 - start_time;
                        evs3 = evs2 @ [Log_completed execution_time]
                    in case CrewResponse_init w res execution_time of
                         Inl e \<Rightarrow> except_clause e evs3
                       | Inr response \<Rightarrow> (Inr response, evs3))))"

definition trigger_crew ::
  "world \<Rightarrow> CrewRequest \<Rightarrow> bool \<Rightarrow> (failure + CrewResponse) \<times> event list" where
  "trigger_crew = trigger_crew_with create_musical_theater_crew"

text \<open>
  The route \<^verbatim>\<open>POST /trigger-crew\<close>: the dependency \<^verbatim>\<open>Depends(verify_api_keys)\<close> is
  resolved first, and the handler is called with its value only when it did not raise.
\<close>

definition post_trigger_crew ::
  "world \<Rightarrow> CrewRequest \<Rightarrow> (failure + CrewResponse) \<times> event list" where
  "post_trigger_crew w request =
     (case verify_api_keys w of
        (Inl f, evs) \<Rightarrow> (Inl f, evs)
      | (Inr api_keys, evs) \<Rightarrow>
          (case trigger_crew w request api_keys of
             (out, evs') \<Rightarrow> (out, evs @ evs')))"

text \<open>The calls of the engine among the events of a request, in order.\<close>

fun kickoffs :: "event list \<Rightarrow> (Crew \<times> (string \<rightharpoonup> pyval)) list" where
  "kickoffs [] = []"
| "kickoffs (Call_kickoff c i # evs) = (c, i) # kickoffs evs"
| "kickoffs (ev # evs) = kickoffs evs"

text \<open>The calls of the roster builder among the events of a request.\<close>

fun builds :: "event list \<Rightarrow> string list" where
  "builds [] = []"
| "builds (Call_create_crew n # evs) = n # builds evs"
| "builds (ev # evs) = builds evs"

subsection \<open>Test doubles\<close>

text \<open>
  A world for concrete runs: the API key is set to \<open>key\<close> (unset when \<open>None\<close>), the engine
  is stubbed to end with \<open>out\<close> whatever it is given, the clock reads \<open>0, 1, 2, \<dots>\<close>, and
  every validation error has the same message.
\<close>

definition stub_world :: "string option \<Rightarrow> exn + pyval \<Rightarrow> world" where
  "stub_world key out =
     \<lparr>environ = Map.empty(''OPENAI_API_KEY'' := key),
      kickoff_async = (\<lambda>crew inputs. out),
      loop_time = (\<lambda>n. real n),
      validation_message = (\<lambda>v. ''Input should be a valid string'')\<rparr>"

definition request_of :: "string \<Rightarrow> (string \<times> pyval) list \<Rightarrow> CrewRequest" where
  "request_of n ctx = \<lparr>production_name = n, additional_context = map_of ctx\<rparr>"

definition failing_builder :: "exn \<Rightarrow> string \<Rightarrow> exn + Crew" where
  "failing_builder e n = Inl e"

section \<open>Properties of the roster builder\<close>

subsection \<open>Dictionaries\<close>

lemma dict_get_cases: "dict_get d k dflt = dflt \<or> dict_get d k dflt \<in> snd ` set d"
  by (auto simp: dict_get_def split: option.splits dest: map_of_SomeD intro: rev_image_eqI)

lemma dict_item_Some: "map_of d k = Some v \<Longrightarrow> dict_item d k = Inr v"
  by (simp add: dict_item_def)

lemma dict_get_Some: "map_of d k = Some v \<Longrightarrow> dict_get d k dflt = v"
  by (simp add: dict_get_def)

lemma dict_get_absent: "k \<notin> fst ` set d \<Longrightarrow> dict_get d k dflt = dflt"
  by (simp add: dict_get_def map_of_eq_None_iff [THEN iffD2])

subsection \<open>Agents\<close>

lemma role_descriptions_keys: "list_all has_goal_backstory (map snd role_descriptions)"
  by (simp add: role_descriptions_def has_goal_backstory_def)

lemma fallback_keys: "has_goal_backstory fallback_role_info"
  by (simp add: fallback_role_info_def has_goal_backstory_def)

lemma role_info_keys: "has_goal_backstory (dict_get role_descriptions r fallback_role_info)"
  using dict_get_cases [of role_descriptions r fallback_role_info]
    role_descriptions_keys fallback_keys
  by (auto simp: list_all_iff)

lemma create_agent_for_role_total:
  "create_agent_for_role r = Inr (descriptor_of r)"
proof -
  let ?info = "dict_get role_descriptions r fallback_role_info"
  from role_info_keys [of r] obtain g b
    where g: "map_of ?info ''goal'' = Some g" and b: "map_of ?info ''backstory'' = Some b"
    by (auto simp: has_goal_backstory_def)
  show ?thesis
    by (simp add: create_agent_for_role_def descriptor_of_def Let_def
          dict_item_Some [OF g] dict_item_Some [OF b] dict_get_Some [OF g] dict_get_Some [OF b])
qed

lemma role_descriptor_of: "role (descriptor_of r) = r"
  by (simp add: descriptor_of_def Let_def)

lemma flags_descriptor_of: "verbose (descriptor_of r) \<and> allow_delegation (descriptor_of r)"
  by (simp add: descriptor_of_def Let_def)

lemma descriptor_of_unknown:
  assumes "r \<notin> fst ` set role_descriptions"
  shows "descriptor_of r =
     \<lparr>role = r, goal = ''Contribute to the overall success of the production'',
      backstory = ''You are a theater professional with expertise in your specific domain.'',
      verbose = True, allow_delegation = True\<rparr>"
proof -
  have "dict_get role_descriptions r fallback_role_info = fallback_role_info"
    using assms by (rule dict_get_absent)
  then show ?thesis
    by (simp add: descriptor_of_def Let_def) (simp add: fallback_role_info_def dict_get_def)
qed

lemma role_descriptions_roles:
  "map fst role_descriptions = roles MusicalTheaterCrew_init"
  by (simp add: role_descriptions_def MusicalTheaterCrew_init_def)

subsection \<open>The loops\<close>

lemma role_tasks_loop_append:
  "role_tasks_loop a tds ts = ts @ map (create_task_for_role a) tds"
  by (induction tds arbitrary: ts) simp_all

lemma roles_loop_result:
  "roles_loop m rs as ts =
     Inr (as @ map descriptor_of rs, ts @ concat (map (tasks_of m) rs))"
  by (induction rs arbitrary: as ts)
     (simp_all add: create_agent_for_role_total role_tasks_loop_append tasks_of_def)

lemma create_musical_theater_crew_result:
  "create_musical_theater_crew name =
     Inr \<lparr>agents = map descriptor_of (roles MusicalTheaterCrew_init),
          tasks = concat (map (tasks_of MusicalTheaterCrew_init) (roles MusicalTheaterCrew_init)),
          crew_verbose = 2, process = sequential, callbacks = CrewAgentCallbacks\<rparr>"
  by (simp add: create_musical_theater_crew_def Let_def roles_loop_result)

lemma agent_create_task: "agent (create_task_for_role a td) = a"
  by (cases td) (simp add: create_task_for_role_def)

lemma filter_tasks_of:
  "filter (\<lambda>t. role (agent t) = r) (tasks_of m r') = (if r' = r then tasks_of m r' else [])"
  by (simp add: tasks_of_def filter_map comp_def agent_create_task role_descriptor_of)

lemma filter_concat_tasks:
  "distinct rs \<Longrightarrow>
   filter (\<lambda>t. role (agent t) = r) (concat (map (tasks_of m) rs)) =
     (if r \<in> set rs then tasks_of m r else [])"
  by (induction rs) (auto simp: filter_tasks_of)

lemma filter_descriptors:
  "distinct rs \<Longrightarrow>
   filter (\<lambda>a. role a = r) (map descriptor_of rs) = (if r \<in> set rs then [descriptor_of r] else [])"
  by (induction rs) (auto simp: role_descriptor_of)

lemma roles_init:
  "roles MusicalTheaterCrew_init =
     [''Composer + Lyricist'', ''Book'', ''Director'', ''Choreographer'',
      ''Set/Visual'', ''Dramaturg'', ''Market/Producer'']"
  by (simp add: MusicalTheaterCrew_init_def)

lemma distinct_roles_init: "distinct (roles MusicalTheaterCrew_init)"
  by (simp add: roles_init)

lemma three_templates:
  "r \<in> set (roles MusicalTheaterCrew_init) \<Longrightarrow>
   length (dict_get (task_templates MusicalTheaterCrew_init) r []) = 3"
  by (auto simp: MusicalTheaterCrew_init_def dict_get_def)

lemma length_tasks_of_init:
  "r \<in> set (roles MusicalTheaterCrew_init) \<Longrightarrow> length (tasks_of MusicalTheaterCrew_init r) = 3"
  by (simp add: tasks_of_def three_templates)

lemma length_all_tasks:
  "length (concat (map (tasks_of MusicalTheaterCrew_init) (roles MusicalTheaterCrew_init))) = 21"
proof -
  have "map (\<lambda>r. length (tasks_of MusicalTheaterCrew_init r)) (roles MusicalTheaterCrew_init)
        = map (\<lambda>r. 3) (roles MusicalTheaterCrew_init)"
    by (rule map_cong) (simp_all add: length_tasks_of_init)
  then show ?thesis
    by (simp add: length_concat comp_def) (simp add: roles_init)
qed

subsection \<open>The tasks, field by field\<close>

lemma tasks_of_fields:
  "tasks_of m r =
     map (\<lambda>td. \<lparr>description = fst td, expected_output = snd td, agent = descriptor_of r\<rparr>)
       (dict_get (task_templates m) r [])"
  by (simp add: tasks_of_def create_task_for_role_def case_prod_beta)

lemma agent_tasks_of: "t \<in> set (tasks_of m r) \<Longrightarrow> agent t = descriptor_of r"
  by (auto simp: tasks_of_fields)

lemma descriptor_of_eq_iff: "descriptor_of r' = descriptor_of r \<longleftrightarrow> r' = r"
  using role_descriptor_of [of r] role_descriptor_of [of r'] by auto

lemma filter_agent_tasks_of:
  "filter (\<lambda>t. agent t = descriptor_of r) (tasks_of m r') =
     (if r' = r then tasks_of m r' else [])"
proof -
  have "filter (\<lambda>t. agent t = descriptor_of r) (tasks_of m r') =
          filter (\<lambda>t. r' = r) (tasks_of m r')"
    by (rule filter_cong) (simp_all add: agent_tasks_of descriptor_of_eq_iff)
  then show ?thesis by simp
qed

lemma filter_agent_concat_tasks:
  "distinct rs \<Longrightarrow>
   filter (\<lambda>t. agent t = descriptor_of r) (concat (map (tasks_of m) rs)) =
     (if r \<in> set rs then tasks_of m r else [])"
  by (induction rs) (auto simp: filter_agent_tasks_of)

lemma agent_concat_tasks:
  "t \<in> set (concat (map (tasks_of m) rs)) \<Longrightarrow> agent t \<in> set (map descriptor_of rs)"
  by (auto simp: agent_tasks_of)

lemma grouped_by_role:
  assumes "distinct rs"
  shows "concat (map (\<lambda>r. filter (\<lambda>t. role (agent t) = r) (concat (map (tasks_of m) rs))) rs)
           = concat (map (tasks_of m) rs)"
proof -
  have "map (\<lambda>r. filter (\<lambda>t. role (agent t) = r) (concat (map (tasks_of m) rs))) rs
          = map (tasks_of m) rs"
    by (rule map_cong) (simp_all add: filter_concat_tasks [OF assms])
  then show ?thesis by (rule arg_cong)
qed

lemma triples_tasks_of:
  "map (\<lambda>t. (role (agent t), description t, expected_output t)) (tasks_of m r) =
     map (\<lambda>td. (r, fst td, snd td)) (dict_get (task_templates m) r [])"
  by (simp add: tasks_of_fields comp_def role_descriptor_of)

lemma triples_all_tasks:
  "map (\<lambda>t. (role (agent t), description t, expected_output t))
     (concat (map (tasks_of MusicalTheaterCrew_init) (roles MusicalTheaterCrew_init))) =
   [(''Composer + Lyricist'', ''Compose new songs'', ''Sheet music and lyrics for all songs''),
    (''Composer + Lyricist'', ''Develop musical themes'',
       ''Musical motifs for characters and scenes''),
    (''Composer + Lyricist'', ''Create vocal arrangements'',
       ''Detailed vocal arrangements for ensemble''),
    (''Book'', ''Draft storyline'', ''Complete first draft of the book''),
    (''Book'', ''Character development'', ''Detailed character backgrounds and arcs''),
    (''Book'', ''Scene structure'', ''Scene-by-scene breakdown with transitions''),
    (''Director'', ''Review creative inputs'', ''Provide feedback on creative direction''),
    (''Director'', ''Vision development'', ''Comprehensive production vision document''),
    (''Director'', ''Staging concepts'', ''Initial staging plans for key scenes''),
    (''Choreographer'', ''Develop choreography'', ''Choreography plans for musical numbers''),
    (''Choreographer'', ''Movement patterns'', ''Character-specific movement guidelines''),
    (''Choreographer'', ''Dance arrangements'',
       ''Dance break arrangements for ensemble numbers''),
    (''Set/Visual'', ''Design set sketches'', ''Mood boards and initial sketches''),
    (''Set/Visual'', ''Technical requirements'', ''Technical specifications for set pieces''),
    (''Set/Visual'', ''Visual continuity'', ''Scene transition and visual flow plans''),
    (''Dramaturg'', ''Check continuity'', ''A list of suggested storyline adjustments''),
    (''Dramaturg'', ''Historical research'', ''Period-specific reference materials''),
    (''Dramaturg'', ''Theme analysis'', ''Analysis of major themes and motifs''),
    (''Market/Producer'', ''Analyze market trends'', ''Market analysis report''),
    (''Market/Producer'', ''Budget planning'', ''Initial budget breakdown''),
    (''Market/Producer'', ''Marketing strategy'', ''Marketing and promotion plan'')]"
  unfolding map_concat map_map comp_def triples_tasks_of
  by (simp add: MusicalTheaterCrew_init_def dict_get_def)

section \<open>Properties of the HTTP facade\<close>

subsection \<open>The precondition\<close>

lemma verify_api_keys_missing:
  "\<not> truthy (environ w ''OPENAI_API_KEY'') \<Longrightarrow>
   verify_api_keys w =
     (Inl (HTTPException 500 ''Missing required environment variables: OPENAI_API_KEY''),
      [Log_error ''Missing required environment variables: OPENAI_API_KEY''])"
  by (simp add: verify_api_keys_def Let_def)

lemma verify_api_keys_present:
  "truthy (environ w ''OPENAI_API_KEY'') \<Longrightarrow> verify_api_keys w = (Inr True, [])"
  by (simp add: verify_api_keys_def)

subsection \<open>The handler\<close>

lemma trigger_crew_with_build_raises:
  "build (production_name q) = Inl e \<Longrightarrow>
   trigger_crew_with build w q k =
     except_clause e
       [Log_info (''Received request for production: '' @ production_name q),
        Call_create_crew (production_name q)]"
  by (simp add: trigger_crew_with_def)

lemma trigger_crew_with_kickoff_raises:
  "build (production_name q) = Inr crew \<Longrightarrow> kickoff_async w crew (inputs_of q) = Inl e \<Longrightarrow>
   trigger_crew_with build w q k =
     except_clause e
       [Log_info (''Received request for production: '' @ production_name q),
        Call_create_crew (production_name q),
        Call_kickoff crew (inputs_of q)]"
  by (simp add: trigger_crew_with_def Let_def)

lemma trigger_crew_with_returns:
  "build (production_name q) = Inr crew \<Longrightarrow> kickoff_async w crew (inputs_of q) = Inr v \<Longrightarrow>
   trigger_crew_with build w q k =
     (case CrewResponse_init w v (loop_time w 1 - loop_time w 0) of
        Inl e \<Rightarrow>
          except_clause e
            [Log_info (''Received request for production: '' @ production_name q),
             Call_create_crew (production_name q),
             Call_kickoff crew (inputs_of q),
             Log_completed (loop_time w 1 - loop_time w 0)]
      | Inr response \<Rightarrow>
          (Inr response,
           [Log_info (''Received request for production: '' @ production_name q),
            Call_create_crew (production_name q),
            Call_kickoff crew (inputs_of q),
            Log_completed (loop_time w 1 - loop_time w 0)]))"
  by (simp add: trigger_crew_with_def Let_def split: sum.splits)

lemma trigger_crew_with_success:
  "build (production_name q) = Inr crew \<Longrightarrow>
   kickoff_async w crew (inputs_of q) = Inr (PStr out) \<Longrightarrow>
   trigger_crew_with build w q k =
     (Inr \<lparr>result = out, execution_time = loop_time w 1 - loop_time w 0\<rparr>,
      [Log_info (''Received request for production: '' @ production_name q),
       Call_create_crew (production_name q),
       Call_kickoff crew (inputs_of q),
       Log_completed (loop_time w 1 - loop_time w 0)])"
  by (simp add: trigger_crew_with_returns CrewResponse_init_def)

lemma kickoffs_append: "kickoffs (xs @ ys) = kickoffs xs @ kickoffs ys"
  by (induction xs rule: kickoffs.induct) simp_all

lemma builds_append: "builds (xs @ ys) = builds xs @ builds ys"
  by (induction xs rule: builds.induct) simp_all

lemma kickoffs_except_clause: "kickoffs (snd (except_clause e evs)) = kickoffs evs"
  by (simp add: except_clause_def kickoffs_append)

lemma builds_except_clause: "builds (snd (except_clause e evs)) = builds evs"
  by (simp add: except_clause_def builds_append)

lemma kickoffs_trigger_crew:
  "create_musical_theater_crew (production_name q) = Inr crew \<Longrightarrow>
   kickoffs (snd (trigger_crew w q k)) = [(crew, inputs_of q)]"
  by (cases "kickoff_async w crew (inputs_of q)")
     (simp_all add: trigger_crew_def trigger_crew_with_kickoff_raises trigger_crew_with_returns
        kickoffs_except_clause split: sum.splits)

lemma post_trigger_crew_present:
  "truthy (environ w ''OPENAI_API_KEY'') \<Longrightarrow> post_trigger_crew w q = trigger_crew w q True"
  by (simp add: post_trigger_crew_def verify_api_keys_present split: prod.splits)

lemma post_trigger_crew_missing:
  "\<not> truthy (environ w ''OPENAI_API_KEY'') \<Longrightarrow>
   post_trigger_crew w q =
     (Inl (HTTPException 500 ''Missing required environment variables: OPENAI_API_KEY''),
      [Log_error ''Missing required environment variables: OPENAI_API_KEY''])"
  by (simp add: post_trigger_crew_def verify_api_keys_missing)

lemma kickoffs_post_trigger_crew:
  "create_musical_theater_crew (production_name q) = Inr crew \<Longrightarrow>
   kickoffs (snd (post_trigger_crew w q)) =
     (if truthy (environ w ''OPENAI_API_KEY'') then [(crew, inputs_of q)] else [])"
  by (simp add: post_trigger_crew_present post_trigger_crew_missing kickoffs_trigger_crew)

lemma stub_world_simps:
  "environ (stub_world key out) ''OPENAI_API_KEY'' = key"
  "kickoff_async (stub_world key out) c i = out"
  "loop_time (stub_world key out) n = real n"
  "validation_message (stub_world key out) v = ''Input should be a valid string''"
  by (simp_all add: stub_world_def)

lemma request_of_simps:
  "production_name (request_of n ctx) = n"
  "additional_context (request_of n ctx) = map_of ctx"
  by (simp_all add: request_of_def)

lemma builds_trigger_crew:
  "create_musical_theater_crew (production_name q) = Inr crew \<Longrightarrow>
   builds (snd (trigger_crew w q k)) = [production_name q]"
  by (cases "kickoff_async w crew (inputs_of q)")
     (simp_all add: trigger_crew_def trigger_crew_with_kickoff_raises trigger_crew_with_returns
        builds_except_clause split: sum.splits)

section \<open>The claims about the roster builder\<close>

text \<open>
  Claim C1. For every production name the roster builder returns a crew whose agents are
  exactly the results of \<^verbatim>\<open>create_agent_for_role\<close> on the roles of the fixed list, one
  per role and in the declared order: Composer + Lyricist, Book, Director,
  Choreographer, Set/Visual, Dramaturg, Market/Producer.
\<close>

theorem C1_one_descriptor_per_role:
  "\<exists>c. create_musical_theater_crew name = Inr c
     \<and> map Inr (agents c) = map create_agent_for_role (roles MusicalTheaterCrew_init)
     \<and> map role (agents c) =
         [''Composer + Lyricist'', ''Book'', ''Director'', ''Choreographer'',
          ''Set/Visual'', ''Dramaturg'', ''Market/Producer'']
     \<and> length (agents c) = 7"
proof -
  let ?rs = "roles MusicalTheaterCrew_init"
  have "map Inr (map descriptor_of ?rs) = map create_agent_for_role ?rs"
    by (simp add: create_agent_for_role_total)
  moreover have "map role (map descriptor_of ?rs) = ?rs"
    by (simp add: comp_def role_descriptor_of)
  moreover have "length ?rs = 7"
    by (simp add: roles_init)
  ultimately show ?thesis
    unfolding create_musical_theater_crew_result
    by (simp add: roles_init [symmetric])
qed

text \<open>
  Claim C2. For every production name the crew has 21 tasks, and they are, role by role
  in role order and template by template in template order, the tasks listed here by the
  role of their agent, their description and their expected output. Every task's agent
  is one of the crew's agents. For each role \<open>r\<close> of the list, with \<open>a\<close> the agent that
  \<^verbatim>\<open>create_agent_for_role\<close> returns for it, \<open>a\<close> is the one agent of the crew with role
  \<open>r\<close>, and the tasks bound to \<open>a\<close> are exactly the role's templates in template order,
  each with its description, its expected output and \<open>a\<close> as its agent: as many tasks
  as the role has templates, which is three.
\<close>

theorem C2_tasks_per_role:
  "\<exists>c. create_musical_theater_crew name = Inr c
     \<and> length (tasks c) = 21
     \<and> map (\<lambda>t. (role (agent t), description t, expected_output t)) (tasks c) =
         [(''Composer + Lyricist'', ''Compose new songs'',
             ''Sheet music and lyrics for all songs''),
          (''Composer + Lyricist'', ''Develop musical themes'',
             ''Musical motifs for characters and scenes''),
          (''Composer + Lyricist'', ''Create vocal arrangements'',
             ''Detailed vocal arrangements for ensemble''),
          (''Book'', ''Draft storyline'', ''Complete first draft of the book''),
          (''Book'', ''Character development'', ''Detailed character backgrounds and arcs''),
          (''Book'', ''Scene structure'', ''Scene-by-scene breakdown with transitions''),
          (''Director'', ''Review creative inputs'', ''Provide feedback on creative direction''),
          (''Director'', ''Vision development'', ''Comprehensive production vision document''),
          (''Director'', ''Staging concepts'', ''Initial staging plans for key scenes''),
          (''Choreographer'', ''Develop choreography'',
             ''Choreography plans for musical numbers''),
          (''Choreographer'', ''Movement patterns'', ''Character-specific movement guidelines''),
          (''Choreographer'', ''Dance arrangements'',
             ''Dance break arrangements for ensemble numbers''),
          (''Set/Visual'', ''Design set sketches'', ''Mood boards and initial sketches''),
          (''Set/Visual'', ''Technical requirements'',
             ''Technical specifications for set pieces''),
          (''Set/Visual'', ''Visual continuity'', ''Scene transition and visual flow plans''),
          (''Dramaturg'', ''Check continuity'', ''A list of suggested storyline adjustments''),
          (''Dramaturg'', ''Historical research'', ''Period-specific reference materials''),
          (''Dramaturg'', ''Theme analysis'', ''Analysis of major themes and motifs''),
          (''Market/Producer'', ''Analyze market trends'', ''Market analysis report''),
          (''Market/Producer'', ''Budget planning'', ''Initial budget breakdown''),
          (''Market/Producer'', ''Marketing strategy'', ''Marketing and promotion plan'')]
     \<and> tasks c =
         concat (map (\<lambda>r. filter (\<lambda>t. role (agent t) = r) (tasks c))
                   (roles MusicalTheaterCrew_init))
     \<and> (\<forall>t \<in> set (tasks c). agent t \<in> set (agents c))
     \<and> (\<forall>r \<in> set (roles MusicalTheaterCrew_init).
          \<exists>a. create_agent_for_role r = Inr a
            \<and> filter (\<lambda>x. role x = r) (agents c) = [a]
            \<and> filter (\<lambda>t. agent t = a) (tasks c) =
                map (\<lambda>td. \<lparr>description = fst td, expected_output = snd td, agent = a\<rparr>)
                  (dict_get (task_templates MusicalTheaterCrew_init) r [])
            \<and> length (filter (\<lambda>t. agent t = a) (tasks c)) =
                length (dict_get (task_templates MusicalTheaterCrew_init) r [])
            \<and> length (dict_get (task_templates MusicalTheaterCrew_init) r []) = 3)"
proof -
  let ?m = "MusicalTheaterCrew_init"
  let ?ts = "concat (map (tasks_of ?m) (roles ?m))"
  let ?as = "map descriptor_of (roles ?m)"
  have each: "\<exists>a. create_agent_for_role r = Inr a
            \<and> filter (\<lambda>x. role x = r) ?as = [a]
            \<and> filter (\<lambda>t. agent t = a) ?ts =
                map (\<lambda>td. \<lparr>description = fst td, expected_output = snd td, agent = a\<rparr>)
                  (dict_get (task_templates ?m) r [])
            \<and> length (filter (\<lambda>t. agent t = a) ?ts) = length (dict_get (task_templates ?m) r [])
            \<and> length (dict_get (task_templates ?m) r []) = 3"
    if r: "r \<in> set (roles ?m)" for r
  proof -
    have f: "filter (\<lambda>t. agent t = descriptor_of r) ?ts = tasks_of ?m r"
      using r by (simp add: filter_agent_concat_tasks distinct_roles_init)
    have one: "filter (\<lambda>x. role x = r) ?as = [descriptor_of r]"
      using r by (simp add: filter_descriptors distinct_roles_init)
    have fields: "tasks_of ?m r =
        map (\<lambda>td. \<lparr>description = fst td, expected_output = snd td, agent = descriptor_of r\<rparr>)
          (dict_get (task_templates ?m) r [])"
      by (rule tasks_of_fields)
    have len: "length (tasks_of ?m r) = length (dict_get (task_templates ?m) r [])"
      by (simp add: tasks_of_def)
    have three: "length (dict_get (task_templates ?m) r []) = 3"
      using r by (rule three_templates)
    show ?thesis
    proof (intro exI [of _ "descriptor_of r"] conjI)
      show "create_agent_for_role r = Inr (descriptor_of r)"
        by (rule create_agent_for_role_total)
      show "filter (\<lambda>x. role x = r) ?as = [descriptor_of r]"
        by (rule one)
      show "filter (\<lambda>t. agent t = descriptor_of r) ?ts =
          map (\<lambda>td. \<lparr>description = fst td, expected_output = snd td, agent = descriptor_of r\<rparr>)
            (dict_get (task_templates ?m) r [])"
        unfolding f by (rule fields)
      show "length (filter (\<lambda>t. agent t = descriptor_of r) ?ts) =
          length (dict_get (task_templates ?m) r [])"
        unfolding f by (rule len)
      show "length (dict_get (task_templates ?m) r []) = 3"
        by (rule three)
    qed
  qed
  have bound: "\<forall>t \<in> set ?ts. agent t \<in> set ?as"
    using agent_concat_tasks by blast
  have grouped: "?ts = concat (map (\<lambda>r. filter (\<lambda>t. role (agent t) = r) ?ts) (roles ?m))"
    by (rule grouped_by_role [OF distinct_roles_init, symmetric])
  let ?c = "\<lparr>agents = ?as, tasks = ?ts, crew_verbose = 2,
             process = sequential, callbacks = CrewAgentCallbacks\<rparr>"
  have a: "agents ?c = ?as" and t: "tasks ?c = ?ts"
    by simp_all
  show ?thesis
  proof (intro exI [of _ ?c] conjI)
    show "create_musical_theater_crew name = Inr ?c"
      by (rule create_musical_theater_crew_result)
    show "length (tasks ?c) = 21"
      unfolding t by (rule length_all_tasks)
    show "map (\<lambda>t. (role (agent t), description t, expected_output t)) (tasks ?c) =
         [(''Composer + Lyricist'', ''Compose new songs'',
             ''Sheet music and lyrics for all songs''),
          (''Composer + Lyricist'', ''Develop musical themes'',
             ''Musical motifs for characters and scenes''),
          (''Composer + Lyricist'', ''Create vocal arrangements'',
             ''Detailed vocal arrangements for ensemble''),
          (''Book'', ''Draft storyline'', ''Complete first draft of the book''),
          (''Book'', ''Character development'', ''Detailed character backgrounds and arcs''),
          (''Book'', ''Scene structure'', ''Scene-by-scene breakdown with transitions''),
          (''Director'', ''Review creative inputs'', ''Provide feedback on creative direction''),
          (''Director'', ''Vision development'', ''Comprehensive production vision document''),
          (''Director'', ''Staging concepts'', ''Initial staging plans for key scenes''),
          (''Choreographer'', ''Develop choreography'',
             ''Choreography plans for musical numbers''),
          (''Choreographer'', ''Movement patterns'', ''Character-specific movement guidelines''),
          (''Choreographer'', ''Dance arrangements'',
             ''Dance break arrangements for ensemble numbers''),
          (''Set/Visual'', ''Design set sketches'', ''Mood boards and initial sketches''),
          (''Set/Visual'', ''Technical requirements'',
             ''Technical specifications for set pieces''),
          (''Set/Visual'', ''Visual continuity'', ''Scene transition and visual flow plans''),
          (''Dramaturg'', ''Check continuity'', ''A list of suggested storyline adjustments''),
          (''Dramaturg'', ''Historical research'', ''Period-specific reference materials''),
          (''Dramaturg'', ''Theme analysis'', ''Analysis of major themes and motifs''),
          (''Market/Producer'', ''Analyze market trends'', ''Market analysis report''),
          (''Market/Producer'', ''Budget planning'', ''Initial budget breakdown''),
          (''Market/Producer'', ''Marketing strategy'', ''Marketing and promotion plan'')]"
      unfolding t by (rule triples_all_tasks)
    show "tasks ?c =
         concat (map (\<lambda>r. filter (\<lambda>t. role (agent t) = r) (tasks ?c)) (roles ?m))"
      unfolding t by (rule grouped)
    show "\<forall>t \<in> set (tasks ?c). agent t \<in> set (agents ?c)"
      unfolding t a by (rule bound)
    show "\<forall>r \<in> set (roles ?m).
          \<exists>a. create_agent_for_role r = Inr a
            \<and> filter (\<lambda>x. role x = r) (agents ?c) = [a]
            \<and> filter (\<lambda>t. agent t = a) (tasks ?c) =
                map (\<lambda>td. \<lparr>description = fst td, expected_output = snd td, agent = a\<rparr>)
                  (dict_get (task_templates ?m) r [])
            \<and> length (filter (\<lambda>t. agent t = a) (tasks ?c)) =
                length (dict_get (task_templates ?m) r [])
            \<and> length (dict_get (task_templates ?m) r []) = 3"
      unfolding t a using each by (rule ballI)
  qed
qed

theorem C2_tasks_per_role_witness:
  "''Director'' \<in> set (roles MusicalTheaterCrew_init)
   \<and> (\<exists>c a. create_musical_theater_crew ''Test Show'' = Inr c
        \<and> create_agent_for_role ''Director'' = Inr a
        \<and> a \<in> set (agents c)
        \<and> filter (\<lambda>t. agent t = a) (tasks c) =
            [\<lparr>description = ''Review creative inputs'',
              expected_output = ''Provide feedback on creative direction'', agent = a\<rparr>,
             \<lparr>description = ''Vision development'',
              expected_output = ''Comprehensive production vision document'', agent = a\<rparr>,
             \<lparr>description = ''Staging concepts'',
              expected_output = ''Initial staging plans for key scenes'', agent = a\<rparr>])"
proof -
  let ?m = "MusicalTheaterCrew_init"
  have mem: "''Director'' \<in> set (roles ?m)"
    by (simp add: roles_init)
  from C2_tasks_per_role [of "''Test Show''"] obtain c where
    c: "create_musical_theater_crew ''Test Show'' = Inr c"
    and each: "\<forall>r \<in> set (roles ?m).
          \<exists>a. create_agent_for_role r = Inr a
            \<and> filter (\<lambda>x. role x = r) (agents c) = [a]
            \<and> filter (\<lambda>t. agent t = a) (tasks c) =
                map (\<lambda>td. \<lparr>description = fst td, expected_output = snd td, agent = a\<rparr>)
                  (dict_get (task_templates ?m) r [])
            \<and> length (filter (\<lambda>t. agent t = a) (tasks c)) =
                length (dict_get (task_templates ?m) r [])
            \<and> length (dict_get (task_templates ?m) r []) = 3"
    by (elim exE conjE)
  from bspec [OF each mem] obtain a where
    a: "create_agent_for_role ''Director'' = Inr a"
    and one: "filter (\<lambda>x. role x = ''Director'') (agents c) = [a]"
    and ts: "filter (\<lambda>t. agent t = a) (tasks c) =
       map (\<lambda>td. \<lparr>description = fst td, expected_output = snd td, agent = a\<rparr>)
         (dict_get (task_templates ?m) ''Director'' [])"
    by (elim exE conjE)
  have "a \<in> set (filter (\<lambda>x. role x = ''Director'') (agents c))"
    unfolding one by simp
  then have inn: "a \<in> set (agents c)"
    by simp
  have lit: "filter (\<lambda>t. agent t = a) (tasks c) =
            [\<lparr>description = ''Review creative inputs'',
              expected_output = ''Provide feedback on creative direction'', agent = a\<rparr>,
             \<lparr>description = ''Vision development'',
              expected_output = ''Comprehensive production vision document'', agent = a\<rparr>,
             \<lparr>description = ''Staging concepts'',
              expected_output = ''Initial staging plans for key scenes'', agent = a\<rparr>]"
    unfolding ts by (simp add: MusicalTheaterCrew_init_def dict_get_def)
  have "\<exists>c a. create_musical_theater_crew ''Test Show'' = Inr c
        \<and> create_agent_for_role ''Director'' = Inr a
        \<and> a \<in> set (agents c)
        \<and> filter (\<lambda>t. agent t = a) (tasks c) =
            [\<lparr>description = ''Review creative inputs'',
              expected_output = ''Provide feedback on creative direction'', agent = a\<rparr>,
             \<lparr>description = ''Vision development'',
              expected_output = ''Comprehensive production vision document'', agent = a\<rparr>,
             \<lparr>description = ''Staging concepts'',
              expected_output = ''Initial staging plans for key scenes'', agent = a\<rparr>]"
    using c a inn lit by (intro exI [of _ c] exI [of _ a] conjI)
  with mem show ?thesis by (rule conjI)
qed

text \<open>
  Claim C6. The builder's result does not depend on its input: any two production names
  give the same crew, with the same agents and tasks; and for any two requests (names and
  contexts) in the same world, the crews handed to the engine are the same. The builder
  reads and writes nothing besides its argument, which is why its model is a function of
  the name alone.
\<close>

theorem C6_roster_independent_of_input:
  "create_musical_theater_crew name1 = create_musical_theater_crew name2
   \<and> (\<exists>c1 c2. create_musical_theater_crew name1 = Inr c1
        \<and> create_musical_theater_crew name2 = Inr c2
        \<and> agents c1 = agents c2 \<and> tasks c1 = tasks c2)
   \<and> map fst (kickoffs (snd (post_trigger_crew w q1))) =
       map fst (kickoffs (snd (post_trigger_crew w q2)))"
  by (simp add: create_musical_theater_crew_result
        kickoffs_post_trigger_crew [OF create_musical_theater_crew_result])

text \<open>
  Claim C8. For a role string that is not a key of the descriptor table (whose keys are
  the seven roles), \<^verbatim>\<open>create_agent_for_role\<close> does not raise: it returns the agent with
  that role, the generic goal and backstory, verbose output enabled and delegation
  permitted, the flags every role gets.
\<close>

theorem C8_unknown_role_fallback:
  assumes "r \<notin> fst ` set role_descriptions"
  shows "create_agent_for_role r =
           Inr \<lparr>role = r, goal = ''Contribute to the overall success of the production'',
                backstory = ''You are a theater professional with expertise in your specific domain.'',
                verbose = True, allow_delegation = True\<rparr>
         \<and> map fst role_descriptions = roles MusicalTheaterCrew_init
         \<and> (\<exists>a. create_agent_for_role known = Inr a \<and> verbose a \<and> allow_delegation a)"
  using assms
  by (simp add: create_agent_for_role_total descriptor_of_unknown role_descriptions_roles
        flags_descriptor_of)

theorem C8_unknown_role_fallback_witness:
  "''Stage Manager'' \<notin> fst ` set role_descriptions
   \<and> create_agent_for_role ''Stage Manager'' =
       Inr \<lparr>role = ''Stage Manager'',
            goal = ''Contribute to the overall success of the production'',
            backstory = ''You are a theater professional with expertise in your specific domain.'',
            verbose = True, allow_delegation = True\<rparr>"
proof -
  have h: "''Stage Manager'' \<notin> fst ` set role_descriptions"
    by (simp add: role_descriptions_def)
  from C8_unknown_role_fallback [OF h] h show ?thesis by simp
qed

section \<open>The claims about the HTTP facade\<close>

text \<open>
  Claim C3. For every request, when \<^verbatim>\<open>OPENAI_API_KEY\<close> is absent from the environment,
  \<^verbatim>\<open>POST /trigger-crew\<close> ends with the 500 whose detail is the fixed prefix followed by
  the name of the missing key, and all it has done is log that message: the roster
  builder and the engine have not been called.
\<close>

theorem C3_missing_key_fails_first:
  assumes "environ w ''OPENAI_API_KEY'' = None"
  shows "post_trigger_crew w q =
           (Inl (HTTPException 500
                  (''Missing required environment variables: '' @ ''OPENAI_API_KEY'')),
            [Log_error (''Missing required environment variables: '' @ ''OPENAI_API_KEY'')])
         \<and> builds (snd (post_trigger_crew w q)) = []
         \<and> kickoffs (snd (post_trigger_crew w q)) = []"
  using assms by (simp add: post_trigger_crew_missing)

theorem C3_missing_key_fails_first_witness:
  "environ (stub_world None (Inr (PStr ''OK''))) ''OPENAI_API_KEY'' = None
   \<and> fst (post_trigger_crew (stub_world None (Inr (PStr ''OK''))) (request_of ''Test Show'' [])) =
       Inl (HTTPException 500 ''Missing required environment variables: OPENAI_API_KEY'')
   \<and> builds (snd (post_trigger_crew (stub_world None (Inr (PStr ''OK''))) (request_of ''Test Show'' []))) = []"
proof -
  have h: "environ (stub_world None (Inr (PStr ''OK''))) ''OPENAI_API_KEY'' = None"
    by (simp add: stub_world_simps)
  from C3_missing_key_fails_first [OF h, of "request_of ''Test Show'' []"] h
  show ?thesis by simp
qed

text \<open>
  Claim C10. A key that is set to the empty string is missing for the precondition:
  \<^verbatim>\<open>verify_api_keys\<close> raises the 500 naming \<^verbatim>\<open>OPENAI_API_KEY\<close>, exactly as it does,
  and as the whole route does, in the same world with the variable unset.
\<close>

theorem C10_empty_key_counts_as_missing:
  assumes "environ w ''OPENAI_API_KEY'' = Some ''''"
  shows "verify_api_keys w =
           (Inl (HTTPException 500
                  (''Missing required environment variables: '' @ ''OPENAI_API_KEY'')),
            [Log_error (''Missing required environment variables: '' @ ''OPENAI_API_KEY'')])
         \<and> verify_api_keys w =
             verify_api_keys (w\<lparr>environ := (environ w)(''OPENAI_API_KEY'' := None)\<rparr>)
         \<and> post_trigger_crew w q =
             post_trigger_crew (w\<lparr>environ := (environ w)(''OPENAI_API_KEY'' := None)\<rparr>) q"
  using assms by (simp add: post_trigger_crew_missing verify_api_keys_missing)

theorem C10_empty_key_counts_as_missing_witness:
  "environ (stub_world (Some '''') (Inr (PStr ''OK''))) ''OPENAI_API_KEY'' = Some ''''
   \<and> verify_api_keys (stub_world (Some '''') (Inr (PStr ''OK''))) =
       (Inl (HTTPException 500 ''Missing required environment variables: OPENAI_API_KEY''),
        [Log_error ''Missing required environment variables: OPENAI_API_KEY''])"
proof -
  have h: "environ (stub_world (Some '''') (Inr (PStr ''OK''))) ''OPENAI_API_KEY'' = Some ''''"
    by (simp add: stub_world_simps)
  from C10_empty_key_counts_as_missing [OF h] h
  show ?thesis by simp
qed




text \<open>
  Claim C9. When the additional context has an entry under the key
  \<^verbatim>\<open>"production_name"\<close>, that entry is what the merged mapping holds under the key, and
  it is what the one engine call of the handler receives there, in place of the
  request's own production name.
\<close>

theorem C9_context_overrides_production_name:
  assumes "additional_context q ''production_name'' = Some v"
  shows "inputs_of q ''production_name'' = Some v
         \<and> map (\<lambda>call. snd call ''production_name'') (kickoffs (snd (trigger_crew w q k)))
             = [Some v]"
  using assms
  by (simp add: kickoffs_trigger_crew [OF create_musical_theater_crew_result] inputs_of_def)

theorem C9_context_overrides_production_name_witness:
  "additional_context (request_of ''Test Show'' [(''production_name'', PStr ''Other'')])
     ''production_name'' = Some (PStr ''Other'')
   \<and> inputs_of (request_of ''Test Show'' [(''production_name'', PStr ''Other'')])
       ''production_name'' = Some (PStr ''Other'')"
proof -
  have h: "additional_context (request_of ''Test Show'' [(''production_name'', PStr ''Other'')])
     ''production_name'' = Some (PStr ''Other'')"
    by (simp add: request_of_simps)
  from C9_context_overrides_production_name [OF h] h
  show ?thesis by simp
qed

text \<open>
  Claim C4, as stated for any exception, fails: the handler's clause is
  \<^verbatim>\<open>except Exception\<close>, so an exception of the engine that is not an instance of
  \<^verbatim>\<open>Exception\<close> (a cancellation of the awaited run, say) leaves the handler uncaught,
  and no 500 with its message is produced.
\<close>

theorem C4_uncaught_counterexample:
  "kickoff_async (stub_world (Some ''sk-test'') (Inl (BaseException ''cancelled'')))
       \<lparr>agents = map descriptor_of (roles MusicalTheaterCrew_init),
        tasks = concat (map (tasks_of MusicalTheaterCrew_init) (roles MusicalTheaterCrew_init)),
        crew_verbose = 2, process = sequential, callbacks = CrewAgentCallbacks\<rparr>
       (inputs_of (request_of ''Test Show'' []))
     = Inl (BaseException ''cancelled'')
   \<and> post_trigger_crew (stub_world (Some ''sk-test'') (Inl (BaseException ''cancelled'')))
        (request_of ''Test Show'' [])
     = (Inl (Uncaught (BaseException ''cancelled'')),
        [Log_info ''Received request for production: Test Show'',
         Call_create_crew ''Test Show'',
         Call_kickoff
           \<lparr>agents = map descriptor_of (roles MusicalTheaterCrew_init),
            tasks = concat (map (tasks_of MusicalTheaterCrew_init) (roles MusicalTheaterCrew_init)),
            crew_verbose = 2, process = sequential, callbacks = CrewAgentCallbacks\<rparr>
           (inputs_of (request_of ''Test Show'' []))])"
proof -
  let ?w = "stub_world (Some ''sk-test'') (Inl (BaseException ''cancelled''))"
  let ?q = "request_of ''Test Show'' []"
  have k: "truthy (environ ?w ''OPENAI_API_KEY'')"
    by (simp add: stub_world_simps)
  have r: "kickoff_async ?w crew (inputs_of ?q) = Inl (BaseException ''cancelled'')" for crew
    by (simp add: stub_world_simps)
  show ?thesis
    by (simp add: post_trigger_crew_present [OF k] trigger_crew_def
          trigger_crew_with_kickoff_raises [OF create_musical_theater_crew_result r]
          except_clause_def r request_of_simps)
qed

text \<open>
  Claim C4, amended. An exception that is an instance of \<^verbatim>\<open>Exception\<close>, raised by the
  roster builder or by the engine run, is caught, logged, and turned into the 500 whose
  detail is the fixed prefix followed by the exception's message. The builder's failure
  ends the request before any engine call; the engine's failure ends it after exactly that
  one call: no retry, and no response. The first two parts hold for any builder the
  handler body is given, the third for the route with the repository's builder.
\<close>

theorem C4_exception_becomes_500:
  assumes "is_Exception e"
  shows "(build (production_name q) = Inl e \<longrightarrow>
            trigger_crew_with build w q k =
              (Inl (HTTPException 500 (''An error occurred during CrewAI execution: '' @ str e)),
               [Log_info (''Received request for production: '' @ production_name q),
                Call_create_crew (production_name q),
                Log_error (''Error during CrewAI execution: '' @ str e)]))
       \<and> (build (production_name q) = Inr crew \<and> kickoff_async w crew (inputs_of q) = Inl e \<longrightarrow>
            trigger_crew_with build w q k =
              (Inl (HTTPException 500 (''An error occurred during CrewAI execution: '' @ str e)),
               [Log_info (''Received request for production: '' @ production_name q),
                Call_create_crew (production_name q),
                Call_kickoff crew (inputs_of q),
                Log_error (''Error during CrewAI execution: '' @ str e)]))
       \<and> (truthy (environ w ''OPENAI_API_KEY'')
            \<and> create_musical_theater_crew (production_name q) = Inr crew
            \<and> kickoff_async w crew (inputs_of q) = Inl e \<longrightarrow>
            fst (post_trigger_crew w q) =
              Inl (HTTPException 500 (''An error occurred during CrewAI execution: '' @ str e))
            \<and> kickoffs (snd (post_trigger_crew w q)) = [(crew, inputs_of q)])"
proof (intro conjI impI)
  assume "build (production_name q) = Inl e"
  then show "trigger_crew_with build w q k =
      (Inl (HTTPException 500 (''An error occurred during CrewAI execution: '' @ str e)),
       [Log_info (''Received request for production: '' @ production_name q),
        Call_create_crew (production_name q),
        Log_error (''Error during CrewAI execution: '' @ str e)])"
    using assms by (simp add: trigger_crew_with_build_raises except_clause_def)
next
  assume "build (production_name q) = Inr crew \<and> kickoff_async w crew (inputs_of q) = Inl e"
  then show "trigger_crew_with build w q k =
      (Inl (HTTPException 500 (''An error occurred during CrewAI execution: '' @ str e)),
       [Log_info (''Received request for production: '' @ production_name q),
        Call_create_crew (production_name q),
        Call_kickoff crew (inputs_of q),
        Log_error (''Error during CrewAI execution: '' @ str e)])"
    using assms by (simp add: trigger_crew_with_kickoff_raises except_clause_def)
next
  assume h: "truthy (environ w ''OPENAI_API_KEY'')
     \<and> create_musical_theater_crew (production_name q) = Inr crew
     \<and> kickoff_async w crew (inputs_of q) = Inl e"
  then show "fst (post_trigger_crew w q) =
      Inl (HTTPException 500 (''An error occurred during CrewAI execution: '' @ str e))"
    using assms
    by (simp add: post_trigger_crew_present trigger_crew_def trigger_crew_with_kickoff_raises
          except_clause_def)
  from h show "kickoffs (snd (post_trigger_crew w q)) = [(crew, inputs_of q)]"
    by (simp add: kickoffs_post_trigger_crew)
qed

theorem C4_exception_becomes_500_witness:
  "is_Exception (Exception ''boom'')
   \<and> fst (trigger_crew_with (failing_builder (Exception ''boom''))
            (stub_world (Some ''sk-test'') (Inr (PStr ''OK''))) (request_of ''Test Show'' []) True) =
       Inl (HTTPException 500 ''An error occurred during CrewAI execution: boom'')
   \<and> fst (trigger_crew_with create_musical_theater_crew
            (stub_world (Some ''sk-test'') (Inl (Exception ''boom'')))
            (request_of ''Test Show'' []) True) =
       Inl (HTTPException 500 ''An error occurred during CrewAI execution: boom'')
   \<and> fst (post_trigger_crew (stub_world (Some ''sk-test'') (Inl (Exception ''boom'')))
            (request_of ''Test Show'' [])) =
       Inl (HTTPException 500 ''An error occurred during CrewAI execution: boom'')"
proof -
  let ?e = "Exception ''boom''"
  let ?q = "request_of ''Test Show'' []"
  let ?w = "stub_world (Some ''sk-test'') (Inl ?e)"
  let ?crew = "\<lparr>agents = map descriptor_of (roles MusicalTheaterCrew_init),
        tasks = concat (map (tasks_of MusicalTheaterCrew_init) (roles MusicalTheaterCrew_init)),
        crew_verbose = 2, process = sequential, callbacks = CrewAgentCallbacks\<rparr>"
  have e: "is_Exception ?e" by simp
  have b: "failing_builder ?e (production_name ?q) = Inl ?e"
    by (simp add: failing_builder_def)
  have k: "truthy (environ ?w ''OPENAI_API_KEY'')"
    by (simp add: stub_world_simps)
  have r: "kickoff_async ?w ?crew (inputs_of ?q) = Inl ?e"
    by (simp add: stub_world_simps)
  note thm1 = C4_exception_becomes_500 [OF e, where build = "failing_builder ?e" and q = ?q
      and w = "stub_world (Some ''sk-test'') (Inr (PStr ''OK''))" and k = True]
  note thm2 = C4_exception_becomes_500 [OF e, where build = create_musical_theater_crew
      and q = ?q and crew = ?crew and w = ?w]
  have "fst (trigger_crew_with (failing_builder ?e)
            (stub_world (Some ''sk-test'') (Inr (PStr ''OK''))) ?q True) =
       Inl (HTTPException 500 ''An error occurred during CrewAI execution: boom'')"
    using thm1 [THEN conjunct1, rule_format, OF b] by simp
  moreover have "fst (trigger_crew_with create_musical_theater_crew ?w ?q True) =
       Inl (HTTPException 500 ''An error occurred during CrewAI execution: boom'')"
    using thm2 [where k = True, THEN conjunct2, THEN conjunct1, rule_format,
        OF conjI [OF create_musical_theater_crew_result r]]
    by simp
  moreover have "fst (post_trigger_crew ?w ?q) =
       Inl (HTTPException 500 ''An error occurred during CrewAI execution: boom'')"
    using thm2 [THEN conjunct2, THEN conjunct2, rule_format,
        OF conjI [OF k conjI [OF create_musical_theater_crew_result r]]]
    by simp
  ultimately show ?thesis using e by simp
qed

text \<open>
  Claim C5, as stated, fails: \<^verbatim>\<open>production_name: str = Field(...)\<close> makes the field
  required and of type text, with no minimum length, and nothing in the handler looks at
  the name's length. A request with the empty name is built and run, and answered with
  the engine's result.
\<close>

theorem C5_empty_name_counterexample:
  "production_name (request_of '''' []) = ''''
   \<and> fst (post_trigger_crew (stub_world (Some ''sk-test'') (Inr (PStr ''OK''))) (request_of '''' []))
       = Inr \<lparr>result = ''OK'', execution_time = 1\<rparr>
   \<and> builds (snd (post_trigger_crew (stub_world (Some ''sk-test'') (Inr (PStr ''OK'')))
        (request_of '''' []))) = ['''']
   \<and> length (kickoffs (snd (post_trigger_crew (stub_world (Some ''sk-test'') (Inr (PStr ''OK'')))
        (request_of '''' [])))) = 1"
proof -
  let ?w = "stub_world (Some ''sk-test'') (Inr (PStr ''OK''))"
  let ?q = "request_of '''' []"
  have k: "truthy (environ ?w ''OPENAI_API_KEY'')"
    by (simp add: stub_world_simps)
  have r: "kickoff_async ?w crew (inputs_of ?q) = Inr (PStr ''OK'')" for crew
    by (simp add: stub_world_simps)
  show ?thesis
    by (simp add: post_trigger_crew_present [OF k] trigger_crew_def
          trigger_crew_with_success [OF create_musical_theater_crew_result r]
          stub_world_simps request_of_simps)
qed

text \<open>
  Claim C5, amended. No check is applied to a request beyond its declared field types:
  whatever the production name, the empty one included, with the key present the route
  does not reject the request before the crew is run: it calls the builder once with that
  name and calls the engine once with the built crew and the merged inputs.
\<close>

theorem C5_any_name_is_run:
  assumes "truthy (environ w ''OPENAI_API_KEY'')"
  shows "\<exists>crew. create_musical_theater_crew (production_name q) = Inr crew
           \<and> builds (snd (post_trigger_crew w q)) = [production_name q]
           \<and> kickoffs (snd (post_trigger_crew w q)) = [(crew, inputs_of q)]"
  using assms
  by (simp add: create_musical_theater_crew_result post_trigger_crew_present
        kickoffs_trigger_crew [OF create_musical_theater_crew_result]
        builds_trigger_crew [OF create_musical_theater_crew_result])

theorem C5_any_name_is_run_witness:
  "truthy (environ (stub_world (Some ''sk-test'') (Inr (PStr ''OK''))) ''OPENAI_API_KEY'')
   \<and> builds (snd (post_trigger_crew (stub_world (Some ''sk-test'') (Inr (PStr ''OK'')))
        (request_of '''' []))) = ['''']
   \<and> length (kickoffs (snd (post_trigger_crew (stub_world (Some ''sk-test'') (Inr (PStr ''OK'')))
        (request_of '''' [])))) = 1"
proof -
  let ?w = "stub_world (Some ''sk-test'') (Inr (PStr ''OK''))"
  have k: "truthy (environ ?w ''OPENAI_API_KEY'')"
    by (simp add: stub_world_simps)
  from C5_any_name_is_run [OF k, of "request_of '''' []"] k
  show ?thesis by (auto simp: request_of_simps)
qed

end
